theory Spec2Isabelle
  imports Complex_Main
begin

section \<open>Shared data: embeddings, messages, provider responses, errors\<close>

text \<open>
  The notebooks glue three remote services together: the Azure OpenAI embeddings
  endpoint, the Azure OpenAI chat-completions endpoint and an Azure Cosmos DB account.
  The Python is sequential; every call is blocking. Each notebook function becomes a
  function from the state of the database (and the log of requests sent to the
  completions endpoint) to a result and the new state. A call that raises in Python
  returns \<open>Inl\<close> of an error, together with the state reached when it raised.

  Similarity scores are Python floats in the source. Only their order is used (the
  \<open>WHERE ... > @similarity_score\<close> filter and the \<open>ORDER BY\<close>), so they are reals here,
  and the literals \<open>0.99\<close> and \<open>0.02\<close> are the fractions \<open>99/100\<close> and \<open>2/100\<close>.
\<close>

type_synonym embedding = "real list"

text \<open>One element of the \<open>messages\<close> payload: \<open>{'role': ..., 'content': ...}\<close>.\<close>

record message =
  role :: string
  content :: string

text \<open>
  \<open>response.model_dump()\<close> of a chat completion, restricted to the entries the
  notebooks read: \<open>['choices'][0]['message']['content']\<close>, the three counters under
  \<open>['usage']\<close> (Python ints) and \<open>['model']\<close>.
\<close>

record completion_response =
  message_content :: string
  completion_tokens :: int
  prompt_tokens :: int
  total_tokens :: int
  response_model :: string

text \<open>
  The notebooks have no \<open>try\<close>/\<open>except\<close>: an exception of a client library leaves the
  running function at once. The constructors name which call raised.
\<close>

datatype error =
  EmbeddingError
  | CompletionError
  | CacheWriteError
  | EOFError

text \<open>
  A value stored under a key of a cached document whose Python type matters to a claim:
  an int or a str.
\<close>

datatype pyval = PyInt int | PyStr string

fun is_nonneg_int :: "pyval \<Rightarrow> bool" where
  "is_nonneg_int (PyInt i) = (0 \<le> i)"
| "is_nonneg_int (PyStr s) = False"

text \<open>
  The collaborators outside the repository, as parameters of the model:
  \<^item> \<open>embeddings_create\<close>: \<open>openai_client.embeddings.create(...)\<close> followed by
    \<open>['data'][0]['embedding']\<close>; \<open>None\<close> when the call raises;
  \<^item> \<open>chat_completions_create\<close>: \<open>openai_client.chat.completions.create(...)\<close>;
    \<open>None\<close> when the call raises;
  \<^item> \<open>VectorDistance\<close>: the score the database computes between a stored vector and the
    query vector (the metric is fixed by the container's vector policy, which is set up
    outside these notebooks); higher means more similar, and the Mongo vCore
    \<open>searchScore\<close> plays the same part;
  \<^item> \<open>insert_ok\<close>: whether the database accepts the insert of a document
    (\<open>create_item\<close>, \<open>insert_one\<close>); when it does not, the client raises;
  \<^item> \<open>json_dumps\<close>: \<open>json.dumps\<close> of the dict \<open>{'overview': ...}\<close> left in a search
    row, given by its overview text.
  Reads of the database are taken to succeed.
\<close>

record 'd env =
  embeddings_create :: "string \<Rightarrow> embedding option"
  chat_completions_create :: "message list \<Rightarrow> completion_response option"
  VectorDistance :: "embedding \<Rightarrow> embedding \<Rightarrow> real"
  insert_ok :: "'d \<Rightarrow> bool"
  json_dumps :: "string \<Rightarrow> string"

subsection \<open>Python's \<open>str\<close> on an int\<close>

definition digit_char :: "nat \<Rightarrow> char" where
  "digit_char d = char_of (48 + d)"

fun str_nat :: "nat \<Rightarrow> string" where
  "str_nat n = (if n < 10 then [digit_char n] else str_nat (n div 10) @ [digit_char (n mod 10)])"

declare str_nat.simps [simp del]

definition str_int :: "int \<Rightarrow> string" where
  "str_int i = (if i < 0 then CHR ''-'' # str_nat (nat (- i)) else str_nat (nat i))"

text \<open>Reading a digit string back, most significant digit first.\<close>

definition digit_value :: "char \<Rightarrow> nat" where
  "digit_value c = of_char c - 48"

definition is_digit :: "char \<Rightarrow> bool" where
  "is_digit c = (48 \<le> (of_char c :: nat) \<and> (of_char c :: nat) \<le> 57)"

definition digits_value :: "string \<Rightarrow> nat" where
  "digits_value s = foldl (\<lambda>acc c. 10 * acc + digit_value c) 0 s"

subsection \<open>The database's answer to an ordered query\<close>

text \<open>
  \<open>ORDER BY\<close> with the larger key first. Rows with equal keys come out in the database's
  own order; the model keeps them in stored order.
\<close>

fun insert_desc :: "('a \<Rightarrow> 'k::linorder) \<Rightarrow> 'a \<Rightarrow> 'a list \<Rightarrow> 'a list" where
  "insert_desc key x [] = [x]"
| "insert_desc key x (y # ys) =
     (if key x < key y then y # insert_desc key x ys else x # y # ys)"

fun order_by_desc :: "('a \<Rightarrow> 'k::linorder) \<Rightarrow> 'a list \<Rightarrow> 'a list" where
  "order_by_desc key [] = []"
| "order_by_desc key (x # xs) = insert_desc key x (order_by_desc key xs)"

text \<open>
  The query both \<open>vector_search\<close> and \<open>get_cache\<close> send:
  \<^verbatim>\<open>
  SELECT TOP @num_results ...
  FROM c
  WHERE VectorDistance(c.vector,@embedding) > @similarity_score
  ORDER BY VectorDistance(c.vector,@embedding)
  \<close>
  Cosmos DB orders by \<open>VectorDistance\<close> from the most similar row to the least similar
  one. \<open>score\<close> is \<open>VectorDistance(c.vector, @embedding)\<close> as a function of the row.
\<close>

definition select_top :: "nat \<Rightarrow> ('c \<Rightarrow> real) \<Rightarrow> real \<Rightarrow> 'c list \<Rightarrow> 'c list" where
  "select_top num_results score similarity_score items =
     take num_results (order_by_desc score (filter (\<lambda>c. score c > similarity_score) items))"

section \<open>The NoSQL notebook (\<open>AzureCosmosDBforNoSQL/cosmos-nosql-demos.ipynb\<close>)\<close>

text \<open>
  An item of the cache container, as \<open>cache_response\<close> builds it. \<open>ts\<close> is the system
  property \<open>_ts\<close> the database stamps on the item (epoch seconds). \<open>doc_id\<close> is
  \<open>str(uuid.uuid4())\<close>: a fresh identifier, drawn here from a counter.
\<close>

record chat_document =
  doc_id :: nat
  prompt :: string
  completion :: string
  completionTokens :: pyval
  promptTokens :: pyval
  totalTokens :: pyval
  model :: string
  vector :: embedding
  ts :: nat

text \<open>An item of the movies container: the two properties the query reads.\<close>

record movie_item =
  overview :: string
  movie_vector :: embedding

text \<open>
  An element of \<open>formatted_results\<close>: the score popped from the row, and what is left of
  the row, the dict \<open>{'overview': ...}\<close>, given by its overview text.
\<close>

record search_result =
  SimilarityScore :: real
  document :: string

record world =
  cache_container :: "chat_document list"
  movies_container :: "movie_item list"
  completion_requests :: "message list list"
  next_uuid :: nat
  now :: nat

definition generate_embeddings :: "'d env \<Rightarrow> string \<Rightarrow> error + embedding" where
  "generate_embeddings E text =
     (case embeddings_create E text of
        None \<Rightarrow> Inl EmbeddingError
      | Some v \<Rightarrow> Inr v)"

text \<open>The defaults of \<open>vector_search(container, vectors, similarity_score=0.02, num_results=5)\<close>.\<close>

definition vector_search_similarity_score :: real where
  "vector_search_similarity_score = 2 / 100"

definition vector_search_num_results :: nat where
  "vector_search_num_results = 5"

definition vector_search ::
  "'d env \<Rightarrow> movie_item list \<Rightarrow> embedding \<Rightarrow> real \<Rightarrow> nat \<Rightarrow> search_result list" where
  "vector_search E container vectors similarity_score num_results =
     (let results = select_top num_results
                      (\<lambda>c. VectorDistance E (movie_vector c) vectors) similarity_score container
      in foldl (\<lambda>formatted_results result.
                  formatted_results @
                    [\<lparr>SimilarityScore = VectorDistance E (movie_vector result) vectors,
                      document = overview result\<rparr>])
           [] results)"

definition get_chat_history :: "chat_document list \<Rightarrow> nat \<Rightarrow> chat_document list" where
  "get_chat_history container completions = take completions (order_by_desc ts container)"

definition system_prompt :: string where
  "system_prompt =
     ''\<newline>    You are an intelligent assistant for movies. You are designed to provide helpful answers to user questions about movies in your database.'' @
     ''\<newline>    You are friendly, helpful, and informative and can be lighthearted. Be concise in your responses, but still friendly.'' @
     ''\<newline>        - Only answer questions related to the information provided below. Provide at least 3 candidate movie answers in a list.'' @
     ''\<newline>        - Write two lines of whitespace between each answer in the list.'' @
     ''\<newline>    ''"

text \<open>
  The payload \<open>generate_completion\<close> assembles before it calls the provider: the two
  \<open>for\<close> loops append one message per element.
\<close>

definition generate_completion_messages ::
  "'d env \<Rightarrow> string \<Rightarrow> search_result list \<Rightarrow> chat_document list \<Rightarrow> message list" where
  "generate_completion_messages E user_prompt vector_search_results chat_history =
     (let messages = [\<lparr>role = ''system'', content = system_prompt\<rparr>];
          messages = foldl (\<lambda>ms chat.
                        ms @ [\<lparr>role = ''user'', content = prompt chat @ '' '' @ completion chat\<rparr>])
                      messages chat_history;
          messages = messages @ [\<lparr>role = ''user'', content = user_prompt\<rparr>];
          messages = foldl (\<lambda>ms result.
                        ms @ [\<lparr>role = ''system'', content = json_dumps E (document result)\<rparr>])
                      messages vector_search_results
      in messages)"

definition generate_completion ::
  "'d env \<Rightarrow> string \<Rightarrow> search_result list \<Rightarrow> chat_document list \<Rightarrow> world
     \<Rightarrow> (error + completion_response) \<times> world" where
  "generate_completion E user_prompt vector_search_results chat_history w =
     (let messages = generate_completion_messages E user_prompt vector_search_results chat_history;
          w' = w\<lparr>completion_requests := completion_requests w @ [messages]\<rparr>
      in case chat_completions_create E messages of
           None \<Rightarrow> (Inl CompletionError, w')
         | Some response \<Rightarrow> (Inr response, w'))"

text \<open>
  The dict \<open>chat_document\<close> that \<open>cache_response\<close> builds, with the stamp the database
  adds when it stores the item.
\<close>

definition cache_response_document ::
  "string \<Rightarrow> embedding \<Rightarrow> completion_response \<Rightarrow> world \<Rightarrow> chat_document" where
  "cache_response_document user_prompt prompt_vectors response w =
     \<lparr>doc_id = next_uuid w,
      prompt = user_prompt,
      completion = message_content response,
      completionTokens = PyStr (str_int (completion_tokens response)),
      promptTokens = PyStr (str_int (prompt_tokens response)),
      totalTokens = PyStr (str_int (total_tokens response)),
      model = response_model response,
      vector = prompt_vectors,
      ts = now w\<rparr>"

definition cache_response ::
  "chat_document env \<Rightarrow> string \<Rightarrow> embedding \<Rightarrow> completion_response \<Rightarrow> world
     \<Rightarrow> (error + unit) \<times> world" where
  "cache_response E user_prompt prompt_vectors response w =
     (let chat_document = cache_response_document user_prompt prompt_vectors response w;
          w' = w\<lparr>next_uuid := Suc (next_uuid w)\<rparr>
      in if insert_ok E chat_document
         then (Inr (), w'\<lparr>cache_container := cache_container w' @ [chat_document]\<rparr>)
         else (Inl CacheWriteError, w'))"

definition get_cache ::
  "'d env \<Rightarrow> chat_document list \<Rightarrow> embedding \<Rightarrow> real \<Rightarrow> nat \<Rightarrow> chat_document list" where
  "get_cache E container vectors similarity_score num_results =
     select_top num_results (\<lambda>c. VectorDistance E (vector c) vectors) similarity_score container"

text \<open>The threshold \<open>chat_completion\<close> passes to \<open>get_cache\<close>: \<open>similarity_score=0.99\<close>.\<close>

definition cache_similarity_score :: real where
  "cache_similarity_score = 99 / 100"

text \<open>
  The notebook defines \<open>chat_completion\<close> twice; the second definition (the cell under
  "LLM Pipeline function") replaces the first and is the one the Gradio callback runs.
  It returns the pair of the text and the cached flag.
\<close>

definition chat_completion ::
  "chat_document env \<Rightarrow> world \<Rightarrow> string \<Rightarrow> (error + string \<times> bool) \<times> world" where
  "chat_completion E w user_input =
     (case generate_embeddings E user_input of
        Inl e \<Rightarrow> (Inl e, w)
      | Inr user_embeddings \<Rightarrow>
          (let cache_results =
                 get_cache E (cache_container w) user_embeddings cache_similarity_score 1
           in if length cache_results > 0
              then (Inr (completion (cache_results ! 0), True), w)
              else
                (let search_results =
                       vector_search E (movies_container w) user_embeddings
                         vector_search_similarity_score vector_search_num_results;
                     chat_history = get_chat_history (cache_container w) 3
                 in case generate_completion E user_input search_results chat_history w of
                      (Inl e, w1) \<Rightarrow> (Inl e, w1)
                    | (Inr completions_results, w1) \<Rightarrow>
                        (case cache_response E user_input user_embeddings completions_results w1 of
                           (Inl e, w2) \<Rightarrow> (Inl e, w2)
                         | (Inr u, w2) \<Rightarrow>
                             (Inr (message_content completions_results, False), w2)))))"

section \<open>The Mongo vCore notebook (\<open>cosmos-demos.ipynb\<close>)\<close>

text \<open>
  A document of the cache collection, as \<open>cache_generation\<close> builds it. \<open>oid\<close> is the
  \<open>_id\<close> (an ObjectId) that \<open>insert_one\<close> adds to a document that has none; ObjectIds
  are unique in a collection and the model draws them from a counter.
\<close>

record vcore_chat =
  oid :: nat
  vc_prompt :: string
  vc_completion :: string
  vc_completionTokens :: pyval
  vc_promptTokens :: pyval
  vc_totalTokens :: pyval
  vc_model :: string
  vectorContent :: embedding

text \<open>A document of the searched collection: the properties the notebook reads.\<close>

record vcore_doc =
  doc_content :: string
  contentVector :: embedding

text \<open>A row of the aggregation: \<open>{'similarityScore': ..., 'document': ...}\<close>.\<close>

record vcore_hit =
  similarityScore :: real
  hit_document :: vcore_doc

text \<open>
  \<open>cache\<close> and \<open>collection\<close> are the notebook's two global collections; \<open>stdout\<close> holds
  the lines the loop prints.
\<close>

record vcore_world =
  cache :: "vcore_chat list"
  collection :: "vcore_doc list"
  vcore_requests :: "message list list"
  next_oid :: nat
  stdout :: "string list"

text \<open>
  \<open>vector_search(query, num_results=3)\<close>: the \<open>cosmosSearch\<close> stage returns the
  \<open>k\<close> nearest documents, best score first, and the \<open>$project\<close> stage pairs each with
  its score. The notebook's name is \<open>vector_search\<close>, as in the NoSQL notebook.
\<close>

definition vector_search_vcore ::
  "'d env \<Rightarrow> vcore_doc list \<Rightarrow> embedding \<Rightarrow> nat \<Rightarrow> vcore_hit list" where
  "vector_search_vcore E coll query num_results =
     (let query_embedding = query
      in map (\<lambda>d. \<lparr>similarityScore = VectorDistance E (contentVector d) query_embedding,
                    hit_document = d\<rparr>)
           (take num_results
              (order_by_desc (\<lambda>d. VectorDistance E (contentVector d) query_embedding) coll)))"

text \<open>
  \<open>cache.find({}, {"prompt": 1, "completion": 1}).sort([("_id", -1)]).limit(completions)\<close>.
  A limit of 0 is no limit in MongoDB (PyMongo, \<open>Cursor.limit\<close>: "A limit of 0 is
  equivalent to no limit"). The projection keeps \<open>_id\<close>, \<open>prompt\<close> and \<open>completion\<close>,
  the only fields the caller reads; the model returns the documents themselves.
\<close>

definition get_conversation_history :: "vcore_chat list \<Rightarrow> nat \<Rightarrow> vcore_chat list" where
  "get_conversation_history cache_docs completions =
     (let results = order_by_desc oid cache_docs
      in if completions = 0 then results else take completions results)"

definition system_prompt_vcore :: string where
  "system_prompt_vcore =
     ''\<newline>    You are an intelligent assistant for Microsoft Azure services.'' @
     ''\<newline>    You are designed to provide helpful answers to user questions about Azure services given the information about to be provided.'' @
     ''\<newline>        - Only answer questions related to the information provided below, provide 3 clear suggestions in a list format.'' @
     ''\<newline>        - Write two lines of whitespace between each answer in the list.'' @
     ''\<newline>        - Only provide answers that have products that are part of Microsoft Azure and based on the content items.'' @
     ''\<newline>        - If you're unsure of an answer, you can say \"\"I don't know\"\" or \"\"I'm not sure\"\" and recommend users search themselves.\"'' @
     ''\<newline>    ''"

text \<open>
  The payload of the notebook's \<open>generate_completion(vector_search_results, user_prompt)\<close>,
  which reads the conversation history itself.
\<close>

definition generate_completion_messages_vcore ::
  "vcore_hit list \<Rightarrow> string \<Rightarrow> vcore_chat list \<Rightarrow> message list" where
  "generate_completion_messages_vcore vector_search_results user_prompt cache_docs =
     (let messages = [\<lparr>role = ''system'', content = system_prompt_vcore\<rparr>];
          conversation_history = get_conversation_history cache_docs 3;
          messages = foldl (\<lambda>ms item.
                        ms @ [\<lparr>role = ''system'',
                               content = vc_prompt item @ '' '' @ vc_completion item\<rparr>])
                      messages conversation_history;
          messages = messages @ [\<lparr>role = ''user'', content = user_prompt\<rparr>];
          messages = foldl (\<lambda>ms item.
                        ms @ [\<lparr>role = ''system'', content = doc_content (hit_document item)\<rparr>])
                      messages vector_search_results
      in messages)"

definition generate_completion_vcore ::
  "'d env \<Rightarrow> vcore_hit list \<Rightarrow> string \<Rightarrow> vcore_world
     \<Rightarrow> (error + completion_response) \<times> vcore_world" where
  "generate_completion_vcore E vector_search_results user_prompt w =
     (let messages = generate_completion_messages_vcore vector_search_results user_prompt (cache w);
          w' = w\<lparr>vcore_requests := vcore_requests w @ [messages]\<rparr>
      in case chat_completions_create E messages of
           None \<Rightarrow> (Inl CompletionError, w')
         | Some response \<Rightarrow> (Inr response, w'))"

text \<open>The dict \<open>chat[0]\<close> of \<open>cache_generation\<close>, with the \<open>_id\<close> added on insert.\<close>

definition cache_generation_document ::
  "string \<Rightarrow> embedding \<Rightarrow> completion_response \<Rightarrow> vcore_world \<Rightarrow> vcore_chat" where
  "cache_generation_document user_prompt user_embeddings response w =
     \<lparr>oid = next_oid w,
      vc_prompt = user_prompt,
      vc_completion = message_content response,
      vc_completionTokens = PyStr (str_int (completion_tokens response)),
      vc_promptTokens = PyStr (str_int (prompt_tokens response)),
      vc_totalTokens = PyStr (str_int (total_tokens response)),
      vc_model = response_model response,
      vectorContent = user_embeddings\<rparr>"

definition cache_generation ::
  "vcore_chat env \<Rightarrow> string \<Rightarrow> embedding \<Rightarrow> completion_response \<Rightarrow> vcore_world
     \<Rightarrow> (error + unit) \<times> vcore_world" where
  "cache_generation E user_prompt user_embeddings response w =
     (let chat = cache_generation_document user_prompt user_embeddings response w;
          w' = w\<lparr>next_oid := Suc (next_oid w)\<rparr>
      in if insert_ok E chat
         then (Inr (), w'\<lparr>cache := cache w' @ [chat]\<rparr>)
         else (Inl CacheWriteError, w'))"

text \<open>Python's \<open>str.lower\<close>, on the letters A to Z.\<close>

definition lower_char :: "char \<Rightarrow> char" where
  "lower_char c =
     (let n = (of_char c :: nat) in if 65 \<le> n \<and> n \<le> 90 then char_of (n + 32) else c)"

definition lower :: "string \<Rightarrow> string" where
  "lower s = map lower_char s"

text \<open>The body of the \<open>while\<close> loop, for one \<open>user_input\<close>.\<close>

definition qa_step ::
  "vcore_chat env \<Rightarrow> vcore_world \<Rightarrow> string \<Rightarrow> (error + unit) \<times> vcore_world" where
  "qa_step E w user_input =
     (case generate_embeddings E user_input of
        Inl e \<Rightarrow> (Inl e, w)
      | Inr user_embeddings \<Rightarrow>
          (let search_results = vector_search_vcore E (collection w) user_embeddings 3
           in case generate_completion_vcore E search_results user_input w of
                (Inl e, w1) \<Rightarrow> (Inl e, w1)
              | (Inr completions_results, w1) \<Rightarrow>
                  (let w2 = w1\<lparr>stdout := stdout w1 @
                               [''\<newline>'' @ user_input, message_content completions_results]\<rparr>
                   in cache_generation E user_input user_embeddings completions_results w2)))"

text \<open>
  The interactive loop. The list holds what the successive \<open>input("Prompt: ")\<close> calls
  return; \<open>input\<close> raises \<open>EOFError\<close> when there is nothing left to read.
\<close>

fun qa_loop ::
  "vcore_chat env \<Rightarrow> vcore_world \<Rightarrow> string list \<Rightarrow> (error + unit) \<times> vcore_world" where
  "qa_loop E w [] = (Inl EOFError, w)"
| "qa_loop E w (user_input # inputs) =
     (if lower user_input \<noteq> ''end''
      then (case qa_step E w user_input of
              (Inl e, w') \<Rightarrow> (Inl e, w')
            | (Inr u, w') \<Rightarrow> qa_loop E w' inputs)
      else (Inr (), w))"

section \<open>Test doubles\<close>

text \<open>
  Collaborators and stores for running the model on concrete inputs. The embedding
  double rejects the empty string and knows four texts; the database double scores by
  dot product.

  \<open>demo_world_two\<close> is the state after the request \<open>a2\<close> in \<open>demo_world\<close>, answered
  \<open>Solaris\<close> by the provider: \<open>a2\<close> scores \<open>0.98\<close> against the stored entry, a miss, so
  its answer is generated and stored beside the first. The query \<open>c\<close> scores \<open>0.995\<close>
  against the first entry and \<open>0.9951\<close> against the second.

  \<open>demo_world_three\<close> is the state after one more request, \<open>b\<close>, served while the
  clock still shows the same second.
\<close>

definition dot :: "embedding \<Rightarrow> embedding \<Rightarrow> real" where
  "dot u v = sum_list (map2 (*) u v)"

definition demo_response :: completion_response where
  "demo_response =
     \<lparr>message_content = ''Alien'', completion_tokens = 7, prompt_tokens = 12,
      total_tokens = 19, response_model = ''gpt''\<rparr>"

definition demo_embed :: "string \<Rightarrow> embedding option" where
  "demo_embed t =
     (if t = '''' then None
      else if t = ''a'' then Some [1, 0]
      else if t = ''a2'' then Some [98 / 100, 2 / 10]
      else if t = ''b'' then Some [0, 1]
      else if t = ''c'' then Some [995 / 1000, 1 / 10]
      else Some [3 / 5, 4 / 5])"

definition demo_env :: "chat_document env" where
  "demo_env =
     \<lparr>embeddings_create = demo_embed,
      chat_completions_create = (\<lambda>ms. Some demo_response),
      VectorDistance = dot,
      insert_ok = (\<lambda>d. True),
      json_dumps = (\<lambda>s. s)\<rparr>"

definition demo_env_write_fails :: "chat_document env" where
  "demo_env_write_fails = demo_env\<lparr>insert_ok := (\<lambda>d. False)\<rparr>"

definition demo_vcore_env :: "vcore_chat env" where
  "demo_vcore_env =
     \<lparr>embeddings_create = demo_embed,
      chat_completions_create = (\<lambda>ms. Some demo_response),
      VectorDistance = dot,
      insert_ok = (\<lambda>d. True),
      json_dumps = (\<lambda>s. s)\<rparr>"

definition demo_entry :: chat_document where
  "demo_entry =
     \<lparr>doc_id = 0, prompt = ''a'', completion = ''Blade Runner'',
      completionTokens = PyStr ''3'', promptTokens = PyStr ''9'', totalTokens = PyStr ''12'',
      model = ''gpt'', vector = [1, 0], ts = 5\<rparr>"

definition demo_world :: world where
  "demo_world =
     \<lparr>cache_container = [demo_entry],
      movies_container = [\<lparr>overview = ''space'', movie_vector = [0, 1]\<rparr>,
                          \<lparr>overview = ''robots'', movie_vector = [1, 0]\<rparr>],
      completion_requests = [],
      next_uuid = 1,
      now = 8\<rparr>"

definition demo_env_solaris :: "chat_document env" where
  "demo_env_solaris =
     demo_env\<lparr>chat_completions_create :=
       (\<lambda>ms. Some (demo_response\<lparr>message_content := ''Solaris''\<rparr>))\<rparr>"

definition demo_world_two :: world where
  "demo_world_two = snd (chat_completion demo_env_solaris demo_world ''a2'')"

definition demo_world_three :: world where
  "demo_world_three = snd (chat_completion demo_env demo_world_two ''b'')"

definition demo_vcore_entry :: vcore_chat where
  "demo_vcore_entry =
     \<lparr>oid = 0, vc_prompt = ''a'', vc_completion = ''Cosmos DB'',
      vc_completionTokens = PyStr ''3'', vc_promptTokens = PyStr ''9'',
      vc_totalTokens = PyStr ''12'', vc_model = ''gpt'', vectorContent = [1, 0]\<rparr>"

definition demo_vcore_world :: vcore_world where
  "demo_vcore_world =
     \<lparr>cache = [demo_vcore_entry],
      collection = [\<lparr>doc_content = ''storage'', contentVector = [0, 1]\<rparr>],
      vcore_requests = [],
      next_oid = 1,
      stdout = []\<rparr>"

section \<open>Properties\<close>

subsection \<open>Ordered queries\<close>

lemma set_insert_desc: "set (insert_desc key x ys) = insert x (set ys)"
  by (induction ys) auto

lemma set_order_by_desc: "set (order_by_desc key xs) = set xs"
  by (induction xs) (auto simp: set_insert_desc)

lemma length_insert_desc: "length (insert_desc key x ys) = Suc (length ys)"
  by (induction ys) auto

lemma length_order_by_desc: "length (order_by_desc key xs) = length xs"
  by (induction xs) (auto simp: length_insert_desc)

lemma sorted_insert_desc:
  "sorted_wrt (\<lambda>a b. key b \<le> key a) ys \<Longrightarrow> sorted_wrt (\<lambda>a b. key b \<le> key a) (insert_desc key x ys)"
  by (induction ys) (auto simp: set_insert_desc)

lemma sorted_order_by_desc: "sorted_wrt (\<lambda>a b. key b \<le> key a) (order_by_desc key xs)"
  by (induction xs) (auto simp: sorted_insert_desc)

lemma sorted_wrt_take_desc:
  "sorted_wrt R xs \<Longrightarrow> sorted_wrt R (take n xs)"
  by (metis append_take_drop_id sorted_wrt_append)

lemma set_select_top_subset:
  "set (select_top n score s items) \<subseteq> {c \<in> set items. s < score c}"
  unfolding select_top_def using set_take_subset [of n] by (fastforce simp: set_order_by_desc)

lemma sorted_select_top:
  "sorted_wrt (\<lambda>a b. score b \<le> score a) (select_top n score s items)"
  unfolding select_top_def by (rule sorted_wrt_take_desc) (rule sorted_order_by_desc)

lemma length_select_top: "length (select_top n score s items) \<le> n"
  by (simp add: select_top_def)

lemma select_top_Nil_iff:
  "0 < n \<Longrightarrow> select_top n score s items = [] \<longleftrightarrow> (\<forall>c \<in> set items. \<not> s < score c)"
proof -
  assume "0 < n"
  have "select_top n score s items = [] \<longleftrightarrow> order_by_desc score (filter (\<lambda>c. s < score c) items) = []"
    using \<open>0 < n\<close> by (simp add: select_top_def)
  also have "\<dots> \<longleftrightarrow> set (order_by_desc score (filter (\<lambda>c. s < score c) items)) = {}"
    by simp
  also have "\<dots> \<longleftrightarrow> (\<forall>c \<in> set items. \<not> s < score c)"
    by (auto simp: set_order_by_desc filter_empty_conv)
  finally show ?thesis .
qed

lemma select_top_head:
  assumes "0 < n" and "select_top n score s items = h # rest"
  shows "h \<in> set items \<and> s < score h \<and> (\<forall>c \<in> set items. s < score c \<longrightarrow> score c \<le> score h)"
proof -
  let ?ys = "order_by_desc score (filter (\<lambda>c. s < score c) items)"
  from assms have ys: "?ys = h # tl ?ys"
    by (cases ?ys) (auto simp: select_top_def take_Cons')
  have "h \<in> set ?ys" by (subst ys) simp
  then have mem: "h \<in> set items \<and> s < score h" by (simp add: set_order_by_desc)
  have "sorted_wrt (\<lambda>a b. score b \<le> score a) (h # tl ?ys)"
    using sorted_order_by_desc [of score "filter (\<lambda>c. s < score c) items"] ys by simp
  then have "\<forall>c \<in> set (tl ?ys). score c \<le> score h" by simp
  moreover have "set (filter (\<lambda>c. s < score c) items) = insert h (set (tl ?ys))"
    using set_order_by_desc [of score "filter (\<lambda>c. s < score c) items"] ys
    by (metis list.simps(15))
  ultimately have "\<forall>c \<in> set items. s < score c \<longrightarrow> score c \<le> score h"
    by auto
  with mem show ?thesis by simp
qed

lemma sorted_desc_map:
  "sorted_wrt (\<lambda>a b. key b \<le> key a) xs \<Longrightarrow> sorted_wrt (\<ge>) (map key xs)"
  by (simp add: sorted_wrt_map)

lemma take_sorted_newest:
  assumes "sorted_wrt (\<lambda>a b. key b \<le> key a) ys" and "c \<in> set ys" and "c \<notin> set (take n ys)"
    and "r \<in> set (take n ys)"
  shows "key c \<le> key r"
proof -
  from assms(2,3) have "c \<in> set (drop n ys)"
    by (metis Un_iff append_take_drop_id set_append)
  moreover have "sorted_wrt (\<lambda>a b. key b \<le> key a) (take n ys @ drop n ys)"
    using assms(1) by simp
  ultimately show ?thesis
    using assms(4) unfolding sorted_wrt_append by blast
qed

lemma distinct_insert_desc:
  "distinct (map key ys) \<Longrightarrow> key x \<notin> set (map key ys) \<Longrightarrow> distinct (map key (insert_desc key x ys))"
  by (induction ys) (auto simp: set_insert_desc)

lemma distinct_order_by_desc:
  "distinct (map key xs) \<Longrightarrow> distinct (map key (order_by_desc key xs))"
proof (induction xs)
  case Nil
  then show ?case by simp
next
  case (Cons x xs)
  then have "key x \<notin> set (map key (order_by_desc key xs))"
    by (simp add: set_order_by_desc)
  with Cons show ?case by (simp add: distinct_insert_desc)
qed

lemma sorted_desc_strict:
  "sorted_wrt (\<lambda>a b. key b \<le> (key a :: 'k::linorder)) xs \<Longrightarrow> distinct (map key xs) \<Longrightarrow>
   sorted_wrt (\<lambda>a b. key b < key a) xs"
proof (induction xs)
  case Nil
  then show ?case by simp
next
  case (Cons a xs)
  have "key x < key a" if "x \<in> set xs" for x
  proof -
    from Cons.prems(1) that have "key x \<le> key a" by simp
    moreover have "key a \<notin> key ` set xs" using Cons.prems(2) by simp
    with that have "key x \<noteq> key a" by (metis imageI)
    ultimately show ?thesis by simp
  qed
  with Cons show ?case by simp
qed

subsection \<open>Loops that append\<close>

lemma foldl_snoc_map: "foldl (\<lambda>acc x. acc @ [f x]) acc0 xs = acc0 @ map f xs"
  by (induction xs arbitrary: acc0) auto

lemma vector_search_map:
  "vector_search E container v s n =
     map (\<lambda>c. \<lparr>SimilarityScore = VectorDistance E (movie_vector c) v, document = overview c\<rparr>)
       (select_top n (\<lambda>c. VectorDistance E (movie_vector c) v) s container)"
  by (simp add: vector_search_def foldl_snoc_map)

subsection \<open>The two branches of \<open>chat_completion\<close>\<close>

lemma chat_completion_hit:
  assumes "embeddings_create E user_input = Some v"
    and "get_cache E (cache_container w) v cache_similarity_score 1 = h # rest"
  shows "chat_completion E w user_input = (Inr (completion h, True), w)"
  using assms by (simp add: chat_completion_def generate_embeddings_def)

lemma chat_completion_miss:
  assumes "embeddings_create E user_input = Some v"
    and "get_cache E (cache_container w) v cache_similarity_score 1 = []"
  shows "chat_completion E w user_input =
     (case generate_completion E user_input
             (vector_search E (movies_container w) v
                vector_search_similarity_score vector_search_num_results)
             (get_chat_history (cache_container w) 3) w of
        (Inl e, w1) \<Rightarrow> (Inl e, w1)
      | (Inr r, w1) \<Rightarrow>
          (case cache_response E user_input v r w1 of
             (Inl e, w2) \<Rightarrow> (Inl e, w2)
           | (Inr u, w2) \<Rightarrow> (Inr (message_content r, False), w2)))"
  using assms by (simp add: chat_completion_def generate_embeddings_def)

lemma chat_completion_miss_not_cached:
  assumes "embeddings_create E user_input = Some v"
    and "get_cache E (cache_container w) v cache_similarity_score 1 = []"
  shows "chat_completion E w user_input \<noteq> (Inr (text, True), w')"
  by (simp add: chat_completion_miss [OF assms] split: prod.splits sum.splits)

subsection \<open>Writes\<close>

lemma cache_response_written:
  assumes "cache_response E p v r w = (Inr u, w')"
  shows "cache_container w' = cache_container w @ [cache_response_document p v r w]"
  using assms by (auto simp: cache_response_def Let_def split: if_splits)

lemma cache_generation_written:
  assumes "cache_generation E p v r w = (Inr u, w')"
  shows "cache w' = cache w @ [cache_generation_document p v r w]"
  using assms by (auto simp: cache_generation_def Let_def split: if_splits)

lemma qa_step_success:
  assumes emb: "embeddings_create E user_input = Some v"
    and msgs: "messages = generate_completion_messages_vcore
                 (vector_search_vcore E (collection w) v 3) user_input (cache w)"
    and gen: "chat_completions_create E messages = Some r"
    and ins: "insert_ok E (cache_generation_document user_input v r w)"
  shows "qa_step E w user_input =
           (Inr (),
            w\<lparr>vcore_requests := vcore_requests w @ [messages],
              stdout := stdout w @ [''\<newline>'' @ user_input, message_content r],
              next_oid := Suc (next_oid w),
              cache := cache w @ [cache_generation_document user_input v r w]\<rparr>)"
proof -
  let ?w1 = "w\<lparr>vcore_requests := vcore_requests w @ [messages]\<rparr>"
  have g: "generate_completion_vcore E (vector_search_vcore E (collection w) v 3) user_input w =
             (Inr r, ?w1)"
    using msgs gen by (simp add: generate_completion_vcore_def Let_def)
  have c: "cache_generation E user_input v r (?w1\<lparr>stdout := out\<rparr>) =
             (Inr (), ?w1\<lparr>stdout := out, next_oid := Suc (next_oid w),
                cache := cache w @ [cache_generation_document user_input v r w]\<rparr>)" for out
    using ins by (simp add: cache_generation_def cache_generation_document_def Let_def)
  show ?thesis
    using emb by (simp add: qa_step_def generate_embeddings_def g Let_def c)
qed

subsection \<open>Decimal text\<close>

lemma digit_value_digit_char: "d < 10 \<Longrightarrow> digit_value (digit_char d) = d"
  by (simp add: digit_value_def digit_char_def)

lemma is_digit_digit_char: "d < 10 \<Longrightarrow> is_digit (digit_char d)"
  by (simp add: is_digit_def digit_char_def)

lemma digits_value_snoc: "digits_value (s @ [c]) = 10 * digits_value s + digit_value c"
  by (simp add: digits_value_def)

lemma str_nat_digits: "list_all is_digit (str_nat n)"
proof (induction n rule: str_nat.induct)
  case (1 n)
  show ?case
  proof (cases "n < 10")
    case True
    then show ?thesis by (subst str_nat.simps) (simp add: is_digit_digit_char)
  next
    case False
    with "1" show ?thesis by (subst str_nat.simps) (simp add: is_digit_digit_char)
  qed
qed

lemma str_nat_value: "digits_value (str_nat n) = n"
proof (induction n rule: str_nat.induct)
  case (1 n)
  show ?case
  proof (cases "n < 10")
    case True
    then show ?thesis
      by (subst str_nat.simps) (simp add: digits_value_def digit_value_digit_char)
  next
    case False
    with "1" show ?thesis
      by (subst str_nat.simps) (simp add: digits_value_snoc digit_value_digit_char)
  qed
qed

lemma str_nat_nonempty: "str_nat n \<noteq> []"
  by (subst str_nat.simps) simp

lemma str_int_nonneg:
  assumes "0 \<le> i"
  shows "str_int i \<noteq> [] \<and> list_all is_digit (str_int i) \<and> int (digits_value (str_int i)) = i"
  using assms by (simp add: str_int_def str_nat_nonempty str_nat_digits str_nat_value)

lemma str_int_12: "str_int 12 = ''12''"
  by code_simp

subsection \<open>Running the test doubles\<close>

lemma demo_embed_b: "embeddings_create demo_env ''b'' = Some [0, 1]"
  by (simp add: demo_env_def demo_embed_def)

lemma demo_miss_b:
  "get_cache demo_env (cache_container demo_world) [0, 1] cache_similarity_score 1 = []"
  by (simp add: get_cache_def select_top_def demo_world_def demo_entry_def demo_env_def
      dot_def cache_similarity_score_def)

lemma demo_miss_b_wf:
  "get_cache demo_env_write_fails (cache_container demo_world) [0, 1] cache_similarity_score 1 = []"
  by (simp add: get_cache_def select_top_def demo_world_def demo_entry_def demo_env_def
      demo_env_write_fails_def dot_def cache_similarity_score_def)

lemma demo_world_two_reached:
  "chat_completion demo_env_solaris demo_world ''a2'' = (Inr (''Solaris'', False), demo_world_two) \<and>
   cache_container demo_world_two =
     [demo_entry,
      cache_response_document ''a2'' [98 / 100, 2 / 10]
        (demo_response\<lparr>message_content := ''Solaris''\<rparr>) demo_world]"
proof -
  have e: "embeddings_create demo_env_solaris ''a2'' = Some [98 / 100, 2 / 10]"
    by (simp add: demo_env_solaris_def demo_env_def demo_embed_def)
  have m: "get_cache demo_env_solaris (cache_container demo_world) [98 / 100, 2 / 10]
      cache_similarity_score 1 = []"
    by (simp add: get_cache_def select_top_def demo_world_def demo_entry_def demo_env_def
        demo_env_solaris_def dot_def cache_similarity_score_def)
  have g: "chat_completions_create demo_env_solaris ms =
      Some (demo_response\<lparr>message_content := ''Solaris''\<rparr>)" for ms
    by (simp add: demo_env_solaris_def demo_env_def)
  have i: "insert_ok demo_env_solaris d" for d
    by (simp add: demo_env_solaris_def demo_env_def)
  have run: "fst (chat_completion demo_env_solaris demo_world ''a2'') = Inr (''Solaris'', False)"
    by (simp add: chat_completion_miss [OF e m] generate_completion_def cache_response_def
        Let_def g i demo_response_def)
  have c: "cache_container (snd (chat_completion demo_env_solaris demo_world ''a2'')) =
      cache_container demo_world @
        [cache_response_document ''a2'' [98 / 100, 2 / 10]
           (demo_response\<lparr>message_content := ''Solaris''\<rparr>) demo_world]"
    by (simp add: chat_completion_miss [OF e m] generate_completion_def cache_response_def
        Let_def g i cache_response_document_def)
  have "cache_container demo_world = [demo_entry]"
    by (simp add: demo_world_def)
  with c have "cache_container demo_world_two =
     [demo_entry,
      cache_response_document ''a2'' [98 / 100, 2 / 10]
        (demo_response\<lparr>message_content := ''Solaris''\<rparr>) demo_world]"
    by (simp add: demo_world_two_def)
  moreover from run
  have "chat_completion demo_env_solaris demo_world ''a2'' = (Inr (''Solaris'', False), demo_world_two)"
    unfolding demo_world_two_def by (metis prod.collapse)
  ultimately show ?thesis by simp
qed

lemma demo_world_two_clock: "now demo_world_two = 8"
proof -
  have e: "embeddings_create demo_env_solaris ''a2'' = Some [98 / 100, 2 / 10]"
    by (simp add: demo_env_solaris_def demo_env_def demo_embed_def)
  have m: "get_cache demo_env_solaris (cache_container demo_world) [98 / 100, 2 / 10]
      cache_similarity_score 1 = []"
    by (simp add: get_cache_def select_top_def demo_world_def demo_entry_def demo_env_def
        demo_env_solaris_def dot_def cache_similarity_score_def)
  have g: "chat_completions_create demo_env_solaris ms =
      Some (demo_response\<lparr>message_content := ''Solaris''\<rparr>)" for ms
    by (simp add: demo_env_solaris_def demo_env_def)
  have i: "insert_ok demo_env_solaris d" for d
    by (simp add: demo_env_solaris_def demo_env_def)
  have "now (snd (chat_completion demo_env_solaris demo_world ''a2'')) = now demo_world"
    by (simp add: chat_completion_miss [OF e m] generate_completion_def cache_response_def
        Let_def g i)
  then show ?thesis by (simp add: demo_world_two_def demo_world_def)
qed

lemma demo_world_three_reached:
  "fst (chat_completion demo_env demo_world_two ''b'') = Inr (''Alien'', False) \<and>
   cache_container demo_world_three =
     [demo_entry,
      cache_response_document ''a2'' [98 / 100, 2 / 10]
        (demo_response\<lparr>message_content := ''Solaris''\<rparr>) demo_world,
      cache_response_document ''b'' [0, 1] demo_response demo_world_two]"
proof -
  let ?two = "cache_response_document ''a2'' [98 / 100, 2 / 10]
      (demo_response\<lparr>message_content := ''Solaris''\<rparr>) demo_world"
  have cache: "cache_container demo_world_two = [demo_entry, ?two]"
    using demo_world_two_reached by simp
  have m: "get_cache demo_env (cache_container demo_world_two) [0, 1] cache_similarity_score 1 = []"
    by (simp add: cache get_cache_def select_top_def demo_entry_def cache_response_document_def
        demo_env_def dot_def cache_similarity_score_def)
  have g: "chat_completions_create demo_env ms = Some demo_response" for ms
    by (simp add: demo_env_def)
  have i: "insert_ok demo_env d" for d
    by (simp add: demo_env_def)
  have run: "fst (chat_completion demo_env demo_world_two ''b'') = Inr (''Alien'', False)"
    by (simp add: chat_completion_miss [OF demo_embed_b m] generate_completion_def
        cache_response_def Let_def g i demo_response_def)
  have "cache_container (snd (chat_completion demo_env demo_world_two ''b'')) =
      cache_container demo_world_two @
        [cache_response_document ''b'' [0, 1] demo_response demo_world_two]"
    by (simp add: chat_completion_miss [OF demo_embed_b m] generate_completion_def
        cache_response_def Let_def g i cache_response_document_def)
  then have "cache_container demo_world_three =
      [demo_entry, ?two, cache_response_document ''b'' [0, 1] demo_response demo_world_two]"
    by (simp add: demo_world_three_def cache)
  with run show ?thesis by simp
qed

lemma lower_end: "lower ''END'' = ''end''"
  by code_simp

lemma lower_a: "lower ''a'' \<noteq> ''end''"
  by (simp add: lower_def)

section \<open>The claims\<close>

text \<open>
  C1, as stated, fails when more than one stored entry exceeds the threshold: the probe
  asks for the top 1, so only the most similar entry is served. In \<open>demo_world_two\<close>,
  the state two requests leave behind, the query \<open>c\<close> matches the first entry above the
  threshold (\<open>0.995\<close>), and what comes back is the completion of the second
  (\<open>0.9951\<close>).
\<close>

theorem cache_hit_serves_most_similar:
  "embeddings_create demo_env ''c'' = Some [995 / 1000, 1 / 10] \<and>
   demo_entry \<in> set (cache_container demo_world_two) \<and>
   cache_similarity_score < VectorDistance demo_env (vector demo_entry) [995 / 1000, 1 / 10] \<and>
   completion demo_entry = ''Blade Runner'' \<and>
   chat_completion demo_env demo_world_two ''c'' = (Inr (''Solaris'', True), demo_world_two) \<and>
   fst (chat_completion demo_env demo_world_two ''c'') \<noteq> Inr (completion demo_entry, True)"
proof -
  let ?two = "cache_response_document ''a2'' [98 / 100, 2 / 10]
      (demo_response\<lparr>message_content := ''Solaris''\<rparr>) demo_world"
  have cache: "cache_container demo_world_two = [demo_entry, ?two]"
    using demo_world_two_reached by simp
  have e: "embeddings_create demo_env ''c'' = Some [995 / 1000, 1 / 10]"
    by (simp add: demo_env_def demo_embed_def)
  have s: "demo_entry \<in> set (cache_container demo_world_two)"
    by (simp add: cache)
  have a: "cache_similarity_score < VectorDistance demo_env (vector demo_entry) [995 / 1000, 1 / 10]"
    by (simp add: demo_env_def demo_entry_def dot_def cache_similarity_score_def)
  have c: "get_cache demo_env (cache_container demo_world_two) [995 / 1000, 1 / 10]
      cache_similarity_score 1 = [?two]"
    by (simp add: cache get_cache_def select_top_def demo_entry_def cache_response_document_def
        demo_env_def dot_def cache_similarity_score_def)
  have run: "chat_completion demo_env demo_world_two ''c'' = (Inr (''Solaris'', True), demo_world_two)"
    using chat_completion_hit [OF e c] by (simp add: cache_response_document_def)
  have b: "completion demo_entry = ''Blade Runner''"
    by (simp add: demo_entry_def)
  from e s a b run show ?thesis by simp
qed

text \<open>
  C1, amended. When the embedding of the query is \<open>v\<close> and some stored cache entry \<open>d\<close>
  scores above the cache-hit threshold against \<open>v\<close>, \<open>chat_completion\<close> returns the
  stored completion text of a most similar stored entry, with the cached flag \<open>True\<close>,
  and the state is unchanged: in particular the log of requests to the Completion
  Provider is as before, so \<open>generate_completion\<close> was not run. The entry served is
  above the threshold and scores at least as high as \<open>d\<close> and as every other stored
  entry. It is \<open>d\<close> itself when \<open>d\<close> is the only entry above the threshold, and the text
  returned is \<open>d\<close>'s whenever the entries above the threshold all hold \<open>d\<close>'s
  completion.
\<close>

theorem chat_completion_cache_hit:
  assumes emb: "embeddings_create E user_input = Some v"
    and stored: "d \<in> set (cache_container w)"
    and above: "cache_similarity_score < VectorDistance E (vector d) v"
  shows "(\<exists>h \<in> set (cache_container w).
            cache_similarity_score < VectorDistance E (vector h) v \<and>
            VectorDistance E (vector d) v \<le> VectorDistance E (vector h) v \<and>
            (\<forall>c \<in> set (cache_container w).
               VectorDistance E (vector c) v \<le> VectorDistance E (vector h) v) \<and>
            chat_completion E w user_input = (Inr (completion h, True), w)) \<and>
         ((\<forall>c \<in> set (cache_container w).
             cache_similarity_score < VectorDistance E (vector c) v \<longrightarrow>
             completion c = completion d) \<longrightarrow>
          chat_completion E w user_input = (Inr (completion d, True), w))"
proof -
  let ?score = "\<lambda>c. VectorDistance E (vector c) v"
  let ?res = "get_cache E (cache_container w) v cache_similarity_score 1"
  have "?res \<noteq> []"
    using stored above select_top_Nil_iff [of 1 ?score cache_similarity_score "cache_container w"]
    by (auto simp: get_cache_def)
  then obtain h rest where res: "?res = h # rest"
    by (cases ?res) auto
  then have sel: "select_top 1 ?score cache_similarity_score (cache_container w) = h # rest"
    by (simp add: get_cache_def)
  have top: "h \<in> set (cache_container w) \<and> cache_similarity_score < ?score h \<and>
      (\<forall>c \<in> set (cache_container w). cache_similarity_score < ?score c \<longrightarrow> ?score c \<le> ?score h)"
    using select_top_head [OF _ sel] by simp
  have max: "?score c \<le> ?score h" if "c \<in> set (cache_container w)" for c
  proof (cases "cache_similarity_score < ?score c")
    case True
    with top that show ?thesis by blast
  next
    case False
    with top show ?thesis by force
  qed
  have run: "chat_completion E w user_input = (Inr (completion h, True), w)"
    by (rule chat_completion_hit [OF emb res])
  have first: "\<exists>h \<in> set (cache_container w).
            cache_similarity_score < ?score h \<and> ?score d \<le> ?score h \<and>
            (\<forall>c \<in> set (cache_container w). ?score c \<le> ?score h) \<and>
            chat_completion E w user_input = (Inr (completion h, True), w)"
    using top max stored run by blast
  have second: "chat_completion E w user_input = (Inr (completion d, True), w)"
    if "\<forall>c \<in> set (cache_container w).
          cache_similarity_score < ?score c \<longrightarrow> completion c = completion d"
  proof -
    from that top have "completion h = completion d" by blast
    with run show ?thesis by simp
  qed
  from first second show ?thesis by blast
qed

theorem chat_completion_cache_hit_witness:
  "embeddings_create demo_env ''a'' = Some [1, 0] \<and>
   demo_entry \<in> set (cache_container demo_world) \<and>
   cache_similarity_score < VectorDistance demo_env (vector demo_entry) [1, 0] \<and>
   chat_completion demo_env demo_world ''a'' = (Inr (''Blade Runner'', True), demo_world) \<and>
   completion_requests (snd (chat_completion demo_env demo_world ''a'')) = []"
proof -
  have e: "embeddings_create demo_env ''a'' = Some [1, 0]"
    by (simp add: demo_env_def demo_embed_def)
  have s: "demo_entry \<in> set (cache_container demo_world)"
    by (simp add: demo_world_def)
  have a: "cache_similarity_score < VectorDistance demo_env (vector demo_entry) [1, 0]"
    by (simp add: demo_env_def demo_entry_def dot_def cache_similarity_score_def)
  have only: "\<forall>c \<in> set (cache_container demo_world).
      cache_similarity_score < VectorDistance demo_env (vector c) [1, 0] \<longrightarrow>
      completion c = completion demo_entry"
    by (simp add: demo_world_def)
  from chat_completion_cache_hit [OF e s a] only
  have "chat_completion demo_env demo_world ''a'' = (Inr (completion demo_entry, True), demo_world)"
    by blast
  then have "chat_completion demo_env demo_world ''a'' = (Inr (''Blade Runner'', True), demo_world)"
    by (simp add: demo_entry_def)
  with e s a show ?thesis by (simp add: demo_world_def)
qed

text \<open>
  C2. Cache miss. When the probe returns no row, the provider answers the assembled
  messages with \<open>r\<close> and the database accepts the insert, \<open>chat_completion\<close> sends
  exactly one request to the Completion Provider (the request log grows by the one
  payload), appends exactly one document to the cache container, whose \<open>prompt\<close> is the
  raw input and whose \<open>vector\<close> is the embedding computed at the start, and returns the
  generated text with the cached flag \<open>False\<close>.
\<close>

theorem chat_completion_cache_miss:
  assumes emb: "embeddings_create E user_input = Some v"
    and miss: "get_cache E (cache_container w) v cache_similarity_score 1 = []"
    and msgs: "messages = generate_completion_messages E user_input
                 (vector_search E (movies_container w) v
                    vector_search_similarity_score vector_search_num_results)
                 (get_chat_history (cache_container w) 3)"
    and gen: "chat_completions_create E messages = Some r"
    and doc: "d = cache_response_document user_input v r w"
    and ins: "insert_ok E d"
  shows "chat_completion E w user_input =
           (Inr (message_content r, False),
            w\<lparr>completion_requests := completion_requests w @ [messages],
              next_uuid := Suc (next_uuid w),
              cache_container := cache_container w @ [d]\<rparr>) \<and>
         prompt d = user_input \<and> vector d = v \<and> completion d = message_content r"
proof -
  let ?w1 = "w\<lparr>completion_requests := completion_requests w @ [messages]\<rparr>"
  have g: "generate_completion E user_input
             (vector_search E (movies_container w) v
                vector_search_similarity_score vector_search_num_results)
             (get_chat_history (cache_container w) 3) w = (Inr r, ?w1)"
    using msgs gen by (simp add: generate_completion_def Let_def)
  have d1: "cache_response_document user_input v r ?w1 = d"
    using doc by (simp add: cache_response_document_def)
  have c: "cache_response E user_input v r ?w1 =
             (Inr (), ?w1\<lparr>next_uuid := Suc (next_uuid w),
                           cache_container := cache_container w @ [d]\<rparr>)"
    using ins d1 by (simp add: cache_response_def Let_def)
  have "chat_completion E w user_input =
          (Inr (message_content r, False),
           ?w1\<lparr>next_uuid := Suc (next_uuid w), cache_container := cache_container w @ [d]\<rparr>)"
    by (simp add: chat_completion_miss [OF emb miss] g c)
  moreover have "prompt d = user_input \<and> vector d = v \<and> completion d = message_content r"
    using doc by (simp add: cache_response_document_def)
  ultimately show ?thesis by simp
qed

theorem chat_completion_cache_miss_witness:
  "embeddings_create demo_env ''b'' = Some [0, 1] \<and>
   get_cache demo_env (cache_container demo_world) [0, 1] cache_similarity_score 1 = [] \<and>
   fst (chat_completion demo_env demo_world ''b'') = Inr (''Alien'', False) \<and>
   length (completion_requests (snd (chat_completion demo_env demo_world ''b''))) = 1 \<and>
   map prompt (cache_container (snd (chat_completion demo_env demo_world ''b''))) = [''a'', ''b''] \<and>
   map vector (cache_container (snd (chat_completion demo_env demo_world ''b''))) = [[1, 0], [0, 1]]"
proof -
  have g: "chat_completions_create demo_env ms = Some demo_response" for ms
    by (simp add: demo_env_def)
  have i: "insert_ok demo_env d" for d
    by (simp add: demo_env_def)
  note run = chat_completion_cache_miss [OF demo_embed_b demo_miss_b refl g refl i]
  from run have "fst (chat_completion demo_env demo_world ''b'') = Inr (''Alien'', False)"
    by (simp add: demo_response_def)
  moreover from run
  have "length (completion_requests (snd (chat_completion demo_env demo_world ''b''))) = 1"
    by (simp add: demo_world_def)
  moreover from run
  have "map prompt (cache_container (snd (chat_completion demo_env demo_world ''b''))) = [''a'', ''b'']"
    by (simp add: demo_world_def demo_entry_def)
  moreover from run
  have "map vector (cache_container (snd (chat_completion demo_env demo_world ''b''))) = [[1, 0], [0, 1]]"
    by (simp add: demo_world_def demo_entry_def)
  ultimately show ?thesis
    using demo_embed_b demo_miss_b by simp
qed

text \<open>
  C3, as stated, fails: with the same stores, the same query and the same provider
  answer, the caller gets the text \<open>Alien\<close> and the flag \<open>False\<close> when the insert
  succeeds, and the exception of \<open>create_item\<close> when it fails. \<open>cache_response\<close> runs
  before the \<open>return\<close> of \<open>chat_completion\<close> and nothing catches what it raises.
\<close>

theorem cache_write_failure_changes_answer:
  "fst (chat_completion demo_env_write_fails demo_world ''b'') = Inl CacheWriteError \<and>
   fst (chat_completion demo_env demo_world ''b'') = Inr (''Alien'', False) \<and>
   fst (chat_completion demo_env_write_fails demo_world ''b'')
     \<noteq> fst (chat_completion demo_env demo_world ''b'')"
proof -
  have m: "get_cache demo_env (cache_container demo_world) [0, 1] cache_similarity_score 1 = []"
    by (rule demo_miss_b)
  have mw: "get_cache demo_env_write_fails (cache_container demo_world) [0, 1] cache_similarity_score 1 = []"
    by (rule demo_miss_b_wf)
  have e: "embeddings_create demo_env_write_fails ''b'' = Some [0, 1]"
    by (simp add: demo_env_write_fails_def demo_env_def demo_embed_def)
  have gw: "chat_completions_create demo_env_write_fails ms = Some demo_response" for ms
    by (simp add: demo_env_write_fails_def demo_env_def)
  have iw: "\<not> insert_ok demo_env_write_fails d" for d
    by (simp add: demo_env_write_fails_def demo_env_def)
  have g: "chat_completions_create demo_env ms = Some demo_response" for ms
    by (simp add: demo_env_def)
  have i: "insert_ok demo_env d" for d
    by (simp add: demo_env_def)
  have bad: "fst (chat_completion demo_env_write_fails demo_world ''b'') = Inl CacheWriteError"
    by (simp add: chat_completion_miss [OF e mw] generate_completion_def cache_response_def
        Let_def gw iw)
  have good: "fst (chat_completion demo_env demo_world ''b'') = Inr (''Alien'', False)"
    by (simp add: chat_completion_miss [OF demo_embed_b m] generate_completion_def
        cache_response_def Let_def g i demo_response_def)
  from bad good show ?thesis by simp
qed

text \<open>
  C3, amended. When the cache write after a successful completion fails,
  \<open>chat_completion\<close> ends with that error: no text and no cached flag reach the caller.
  The Completion Provider has been called once by then (the request is in the log), an
  identifier has been drawn, and the cache container holds no new item.
\<close>

theorem chat_completion_cache_write_error:
  assumes emb: "embeddings_create E user_input = Some v"
    and miss: "get_cache E (cache_container w) v cache_similarity_score 1 = []"
    and msgs: "messages = generate_completion_messages E user_input
                 (vector_search E (movies_container w) v
                    vector_search_similarity_score vector_search_num_results)
                 (get_chat_history (cache_container w) 3)"
    and gen: "chat_completions_create E messages = Some r"
    and ins: "\<not> insert_ok E (cache_response_document user_input v r w)"
  shows "chat_completion E w user_input =
           (Inl CacheWriteError,
            w\<lparr>completion_requests := completion_requests w @ [messages],
              next_uuid := Suc (next_uuid w)\<rparr>)"
proof -
  let ?w1 = "w\<lparr>completion_requests := completion_requests w @ [messages]\<rparr>"
  have g: "generate_completion E user_input
             (vector_search E (movies_container w) v
                vector_search_similarity_score vector_search_num_results)
             (get_chat_history (cache_container w) 3) w = (Inr r, ?w1)"
    using msgs gen by (simp add: generate_completion_def Let_def)
  have d1: "cache_response_document user_input v r ?w1 = cache_response_document user_input v r w"
    by (simp add: cache_response_document_def)
  have c: "cache_response E user_input v r ?w1 =
             (Inl CacheWriteError, ?w1\<lparr>next_uuid := Suc (next_uuid w)\<rparr>)"
    using ins d1 by (simp add: cache_response_def Let_def)
  show ?thesis
    by (simp add: chat_completion_miss [OF emb miss] g c)
qed

theorem chat_completion_cache_write_error_witness:
  "embeddings_create demo_env_write_fails ''b'' = Some [0, 1] \<and>
   get_cache demo_env_write_fails (cache_container demo_world) [0, 1] cache_similarity_score 1 = [] \<and>
   fst (chat_completion demo_env_write_fails demo_world ''b'') = Inl CacheWriteError \<and>
   length (completion_requests (snd (chat_completion demo_env_write_fails demo_world ''b''))) = 1 \<and>
   cache_container (snd (chat_completion demo_env_write_fails demo_world ''b'')) = [demo_entry]"
proof -
  have e: "embeddings_create demo_env_write_fails ''b'' = Some [0, 1]"
    by (simp add: demo_env_write_fails_def demo_env_def demo_embed_def)
  have g: "chat_completions_create demo_env_write_fails ms = Some demo_response" for ms
    by (simp add: demo_env_write_fails_def demo_env_def)
  have i: "\<not> insert_ok demo_env_write_fails d" for d
    by (simp add: demo_env_write_fails_def demo_env_def)
  note run = chat_completion_cache_write_error [OF e demo_miss_b_wf refl g i]
  from run have "fst (chat_completion demo_env_write_fails demo_world ''b'') = Inl CacheWriteError"
    by simp
  moreover from run
  have "length (completion_requests (snd (chat_completion demo_env_write_fails demo_world ''b''))) = 1"
    by (simp add: demo_world_def)
  moreover from run
  have "cache_container (snd (chat_completion demo_env_write_fails demo_world ''b'')) = [demo_entry]"
    by (simp add: demo_world_def)
  ultimately show ?thesis
    using e demo_miss_b_wf by simp
qed

text \<open>
  C4. The list \<open>vector_search\<close> returns carries non-increasing \<open>SimilarityScore\<close>
  values, which are the scores of the rows the query selected, in the query's order; the
  rows \<open>get_cache\<close> returns have non-increasing scores against the query vector. The
  most similar row comes first in both.
\<close>

theorem vector_queries_ordered:
  "sorted_wrt (\<ge>) (map SimilarityScore (vector_search E container v s n)) \<and>
   map SimilarityScore (vector_search E container v s n) =
     map (\<lambda>c. VectorDistance E (movie_vector c) v)
       (select_top n (\<lambda>c. VectorDistance E (movie_vector c) v) s container) \<and>
   sorted_wrt (\<ge>) (map (\<lambda>c. VectorDistance E (vector c) v) (get_cache E cache_items v s' n'))"
proof -
  have m: "map SimilarityScore (vector_search E container v s n) =
      map (\<lambda>c. VectorDistance E (movie_vector c) v)
        (select_top n (\<lambda>c. VectorDistance E (movie_vector c) v) s container)"
    by (simp add: vector_search_map comp_def)
  have "sorted_wrt (\<ge>) (map (\<lambda>c. VectorDistance E (movie_vector c) v)
        (select_top n (\<lambda>c. VectorDistance E (movie_vector c) v) s container))"
    by (rule sorted_desc_map) (rule sorted_select_top)
  with m have a: "sorted_wrt (\<ge>) (map SimilarityScore (vector_search E container v s n))"
    by simp
  have b: "sorted_wrt (\<ge>) (map (\<lambda>c. VectorDistance E (vector c) v) (get_cache E cache_items v s' n'))"
    unfolding get_cache_def by (rule sorted_desc_map) (rule sorted_select_top)
  from a m b show ?thesis by simp
qed

text \<open>
  C5, as stated, fails: \<open>cache_response\<close> and \<open>cache_generation\<close> wrap each counter in
  \<open>str(...)\<close>, so the stored \<open>promptTokens\<close>, \<open>completionTokens\<close> and \<open>totalTokens\<close>
  are strings. For the usage 12, 7, 19 the documents hold the strings \<open>12\<close> and \<open>19\<close>.
\<close>

theorem cached_token_fields_not_integers:
  "promptTokens (last (cache_container (snd (cache_response demo_env ''b'' [0, 1] demo_response demo_world))))
     = PyStr ''12'' \<and>
   \<not> is_nonneg_int
       (promptTokens (last (cache_container (snd (cache_response demo_env ''b'' [0, 1] demo_response demo_world))))) \<and>
   vc_totalTokens (last (cache (snd (cache_generation demo_vcore_env ''b'' [0, 1] demo_response demo_vcore_world))))
     = PyStr ''19'' \<and>
   \<not> is_nonneg_int
       (vc_totalTokens (last (cache (snd (cache_generation demo_vcore_env ''b'' [0, 1] demo_response demo_vcore_world)))))"
proof -
  have s19: "str_int 19 = ''19''" by code_simp
  have a: "promptTokens (last (cache_container (snd (cache_response demo_env ''b'' [0, 1] demo_response demo_world))))
     = PyStr ''12''"
    by (simp add: cache_response_def Let_def demo_env_def cache_response_document_def
        demo_response_def str_int_12)
  have b: "vc_totalTokens (last (cache (snd (cache_generation demo_vcore_env ''b'' [0, 1] demo_response demo_vcore_world))))
     = PyStr ''19''"
    by (simp add: cache_generation_def Let_def demo_vcore_env_def cache_generation_document_def
        demo_response_def s19)
  from a b show ?thesis by simp
qed

text \<open>
  C5, amended. Every document written to the cache stores \<open>promptTokens\<close>,
  \<open>completionTokens\<close> and \<open>totalTokens\<close> as strings: the decimal text of the counters
  the provider reported. For a non-negative counter that text is a non-empty string of
  digits that reads back as the counter.
\<close>

theorem cached_token_fields_are_text:
  "(cache_response E p v r w = (Inr u, w') \<longrightarrow>
      (\<exists>d. cache_container w' = cache_container w @ [d] \<and>
           promptTokens d = PyStr (str_int (prompt_tokens r)) \<and>
           completionTokens d = PyStr (str_int (completion_tokens r)) \<and>
           totalTokens d = PyStr (str_int (total_tokens r)))) \<and>
   (cache_generation F p v r vw = (Inr u, vw') \<longrightarrow>
      (\<exists>d. cache vw' = cache vw @ [d] \<and>
           vc_promptTokens d = PyStr (str_int (prompt_tokens r)) \<and>
           vc_completionTokens d = PyStr (str_int (completion_tokens r)) \<and>
           vc_totalTokens d = PyStr (str_int (total_tokens r)))) \<and>
   (0 \<le> i \<longrightarrow>
      str_int i \<noteq> [] \<and> list_all is_digit (str_int i) \<and> int (digits_value (str_int i)) = i)"
proof -
  have a: "\<exists>d. cache_container w' = cache_container w @ [d] \<and>
           promptTokens d = PyStr (str_int (prompt_tokens r)) \<and>
           completionTokens d = PyStr (str_int (completion_tokens r)) \<and>
           totalTokens d = PyStr (str_int (total_tokens r))"
    if "cache_response E p v r w = (Inr u, w')"
    using cache_response_written [OF that] by (simp add: cache_response_document_def)
  have b: "\<exists>d. cache vw' = cache vw @ [d] \<and>
           vc_promptTokens d = PyStr (str_int (prompt_tokens r)) \<and>
           vc_completionTokens d = PyStr (str_int (completion_tokens r)) \<and>
           vc_totalTokens d = PyStr (str_int (total_tokens r))"
    if "cache_generation F p v r vw = (Inr u, vw')"
    using cache_generation_written [OF that] by (simp add: cache_generation_document_def)
  from a b str_int_nonneg show ?thesis by blast
qed

theorem cached_token_fields_are_text_witness:
  "cache_response demo_env ''b'' [0, 1] demo_response demo_world =
     (Inr (), demo_world\<lparr>next_uuid := 2,
        cache_container := [demo_entry, cache_response_document ''b'' [0, 1] demo_response demo_world]\<rparr>) \<and>
   (\<exists>d. cache_container (snd (cache_response demo_env ''b'' [0, 1] demo_response demo_world)) =
          [demo_entry, d] \<and> promptTokens d = PyStr ''12'') \<and>
   (0::int) \<le> 12 \<and> list_all is_digit (str_int 12) \<and> int (digits_value (str_int 12)) = 12"
proof -
  let ?w' = "demo_world\<lparr>next_uuid := 2,
        cache_container := [demo_entry, cache_response_document ''b'' [0, 1] demo_response demo_world]\<rparr>"
  have run: "cache_response demo_env ''b'' [0, 1] demo_response demo_world = (Inr (), ?w')"
    by (simp add: cache_response_def Let_def demo_env_def demo_world_def)
  note t = cached_token_fields_are_text [where E = demo_env and p = "''b''" and v = "[0, 1]"
      and r = demo_response and w = demo_world and u = "()" and w' = ?w' and i = 12]
  from t run obtain d where d: "cache_container ?w' = cache_container demo_world @ [d]"
      "promptTokens d = PyStr (str_int (prompt_tokens demo_response))"
    by blast
  have "cache_container (snd (cache_response demo_env ''b'' [0, 1] demo_response demo_world)) =
      cache_container ?w'"
    by (simp only: run snd_conv)
  also have "\<dots> = cache_container demo_world @ [d]" by (rule d(1))
  also have "\<dots> = [demo_entry, d]" by (simp add: demo_world_def)
  finally have c1: "cache_container (snd (cache_response demo_env ''b'' [0, 1] demo_response demo_world)) =
      [demo_entry, d]" .
  have c2: "promptTokens d = PyStr ''12''"
    using d(2) by (simp add: demo_response_def str_int_12)
  from c1 c2
  have "\<exists>d. cache_container (snd (cache_response demo_env ''b'' [0, 1] demo_response demo_world)) =
          [demo_entry, d] \<and> promptTokens d = PyStr ''12''"
    by blast
  moreover from t have "list_all is_digit (str_int 12) \<and> int (digits_value (str_int 12)) = 12"
    by simp
  ultimately show ?thesis using run by simp
qed

text \<open>
  C6. \<open>chat_completion\<close> returns a text flagged as cached only if the query has an
  embedding \<open>v\<close> and the text is the completion of a stored entry whose score against
  \<open>v\<close> exceeds the cache threshold \<open>0.99\<close>; the state is then unchanged. Every row
  \<open>get_cache\<close> returns scores above the threshold it was given, so an entry at or below
  the threshold is never served. The cache threshold is higher than the default
  threshold \<open>0.02\<close> of \<open>vector_search\<close>, which the pipeline uses on the movies
  container.
\<close>

theorem cache_hit_only_above_threshold:
  "(chat_completion E w user_input = (Inr (text, True), w') \<longrightarrow>
      (\<exists>v h. embeddings_create E user_input = Some v \<and> h \<in> set (cache_container w) \<and>
             cache_similarity_score < VectorDistance E (vector h) v \<and> text = completion h \<and>
             w' = w)) \<and>
   (\<forall>c \<in> set (get_cache E container q s n). s < VectorDistance E (vector c) q) \<and>
   vector_search_similarity_score < cache_similarity_score"
proof -
  have served: "\<exists>v h. embeddings_create E user_input = Some v \<and> h \<in> set (cache_container w) \<and>
             cache_similarity_score < VectorDistance E (vector h) v \<and> text = completion h \<and> w' = w"
    if run: "chat_completion E w user_input = (Inr (text, True), w')"
  proof (cases "embeddings_create E user_input")
    case None
    with run show ?thesis
      by (simp add: chat_completion_def generate_embeddings_def)
  next
    case (Some v)
    let ?score = "\<lambda>c. VectorDistance E (vector c) v"
    show ?thesis
    proof (cases "get_cache E (cache_container w) v cache_similarity_score 1")
      case Nil
      with Some run chat_completion_miss_not_cached show ?thesis by blast
    next
      case (Cons h rest)
      then have sel: "select_top 1 ?score cache_similarity_score (cache_container w) = h # rest"
        by (simp add: get_cache_def)
      have "h \<in> set (cache_container w) \<and> cache_similarity_score < ?score h"
        using select_top_head [OF _ sel] by simp
      moreover have "text = completion h \<and> w' = w"
        using run chat_completion_hit [OF Some Cons] by simp
      ultimately show ?thesis using Some by blast
    qed
  qed
  have only: "\<forall>c \<in> set (get_cache E container q s n). s < VectorDistance E (vector c) q"
    using set_select_top_subset [of n "\<lambda>c. VectorDistance E (vector c) q" s container]
    by (auto simp: get_cache_def)
  have "vector_search_similarity_score < cache_similarity_score"
    by (simp add: vector_search_similarity_score_def cache_similarity_score_def)
  with served only show ?thesis by blast
qed

theorem cache_hit_only_above_threshold_witness:
  "chat_completion demo_env demo_world ''a'' = (Inr (''Blade Runner'', True), demo_world) \<and>
   (\<exists>v h. embeddings_create demo_env ''a'' = Some v \<and> h \<in> set (cache_container demo_world) \<and>
          cache_similarity_score < VectorDistance demo_env (vector h) v \<and>
          ''Blade Runner'' = completion h) \<and>
   get_cache demo_env (cache_container demo_world) [0, 1] cache_similarity_score 1 = []"
proof -
  have e: "embeddings_create demo_env ''a'' = Some [1, 0]"
    by (simp add: demo_env_def demo_embed_def)
  have c: "get_cache demo_env (cache_container demo_world) [1, 0] cache_similarity_score 1 = [demo_entry]"
    by (simp add: get_cache_def select_top_def demo_world_def demo_entry_def demo_env_def
        dot_def cache_similarity_score_def)
  have run: "chat_completion demo_env demo_world ''a'' = (Inr (''Blade Runner'', True), demo_world)"
    using chat_completion_hit [OF e c] by (simp add: demo_entry_def)
  with cache_hit_only_above_threshold [of demo_env demo_world "''a''" "''Blade Runner''" demo_world]
  have "\<exists>v h. embeddings_create demo_env ''a'' = Some v \<and> h \<in> set (cache_container demo_world) \<and>
          cache_similarity_score < VectorDistance demo_env (vector h) v \<and>
          ''Blade Runner'' = completion h"
    by blast
  with run demo_miss_b show ?thesis by simp
qed

text \<open>
  C7. The payload of \<open>generate_completion\<close> is, in this order: the system prompt, one
  message per history entry (in the history's order), the user's query, one message per
  search result (in the results' order); and this payload is what is sent to the
  provider. The same holds in the Mongo vCore notebook, whose \<open>generate_completion\<close>
  reads the three newest cache documents as history.
\<close>

theorem generate_completion_message_order:
  "generate_completion_messages E user_prompt vector_search_results chat_history =
     [\<lparr>role = ''system'', content = system_prompt\<rparr>] @
     map (\<lambda>chat. \<lparr>role = ''user'', content = prompt chat @ '' '' @ completion chat\<rparr>) chat_history @
     [\<lparr>role = ''user'', content = user_prompt\<rparr>] @
     map (\<lambda>result. \<lparr>role = ''system'', content = json_dumps E (document result)\<rparr>)
       vector_search_results \<and>
   completion_requests (snd (generate_completion E user_prompt vector_search_results chat_history w)) =
     completion_requests w @
       [generate_completion_messages E user_prompt vector_search_results chat_history] \<and>
   generate_completion_messages_vcore hits user_prompt cache_docs =
     [\<lparr>role = ''system'', content = system_prompt_vcore\<rparr>] @
     map (\<lambda>item. \<lparr>role = ''system'', content = vc_prompt item @ '' '' @ vc_completion item\<rparr>)
       (get_conversation_history cache_docs 3) @
     [\<lparr>role = ''user'', content = user_prompt\<rparr>] @
     map (\<lambda>item. \<lparr>role = ''system'', content = doc_content (hit_document item)\<rparr>) hits \<and>
   vcore_requests (snd (generate_completion_vcore E' hits user_prompt vw)) =
     vcore_requests vw @ [generate_completion_messages_vcore hits user_prompt (cache vw)]"
proof -
  have a: "generate_completion_messages E user_prompt vector_search_results chat_history =
     [\<lparr>role = ''system'', content = system_prompt\<rparr>] @
     map (\<lambda>chat. \<lparr>role = ''user'', content = prompt chat @ '' '' @ completion chat\<rparr>) chat_history @
     [\<lparr>role = ''user'', content = user_prompt\<rparr>] @
     map (\<lambda>result. \<lparr>role = ''system'', content = json_dumps E (document result)\<rparr>)
       vector_search_results"
    by (simp add: generate_completion_messages_def Let_def foldl_snoc_map)
  have b: "completion_requests (snd (generate_completion E user_prompt vector_search_results chat_history w)) =
     completion_requests w @
       [generate_completion_messages E user_prompt vector_search_results chat_history]"
    by (simp add: generate_completion_def Let_def split: option.splits)
  have c: "generate_completion_messages_vcore hits user_prompt cache_docs =
     [\<lparr>role = ''system'', content = system_prompt_vcore\<rparr>] @
     map (\<lambda>item. \<lparr>role = ''system'', content = vc_prompt item @ '' '' @ vc_completion item\<rparr>)
       (get_conversation_history cache_docs 3) @
     [\<lparr>role = ''user'', content = user_prompt\<rparr>] @
     map (\<lambda>item. \<lparr>role = ''system'', content = doc_content (hit_document item)\<rparr>) hits"
    by (simp add: generate_completion_messages_vcore_def Let_def foldl_snoc_map)
  have d: "vcore_requests (snd (generate_completion_vcore E' hits user_prompt vw)) =
     vcore_requests vw @ [generate_completion_messages_vcore hits user_prompt (cache vw)]"
    by (simp add: generate_completion_vcore_def Let_def split: option.splits)
  from a b c d show ?thesis by blast
qed

text \<open>
  C8, as stated, fails on the NoSQL path: \<open>_ts\<close> counts whole seconds, so exchanges
  cached within the same second carry the same stamp and the list returned is not
  strictly descending. In \<open>demo_world_three\<close>, where the last two requests were served
  in the same second, the stamps returned are 8, 8, 5.
\<close>

theorem history_equal_stamps_not_strict:
  "map ts (cache_container demo_world_three) = [5, 8, 8] \<and>
   map ts (get_chat_history (cache_container demo_world_three) 3) = [8, 8, 5] \<and>
   \<not> sorted_wrt (>) (map ts (get_chat_history (cache_container demo_world_three) 3))"
proof -
  let ?two = "cache_response_document ''a2'' [98 / 100, 2 / 10]
      (demo_response\<lparr>message_content := ''Solaris''\<rparr>) demo_world"
  let ?three = "cache_response_document ''b'' [0, 1] demo_response demo_world_two"
  have cache: "cache_container demo_world_three = [demo_entry, ?two, ?three]"
    using demo_world_three_reached by simp
  have t1: "ts demo_entry = 5" by (simp add: demo_entry_def)
  have stamp: "ts (cache_response_document p v r w) = now w" for p v r w
    by (simp add: cache_response_document_def)
  have clock: "now demo_world = 8" by (simp add: demo_world_def)
  have stored: "map ts (cache_container demo_world_three) = [5, 8, 8]"
    by (simp add: cache t1 stamp clock demo_world_two_clock)
  have "get_chat_history (cache_container demo_world_three) 3 = [?two, ?three, demo_entry]"
    by (simp add: cache get_chat_history_def t1 stamp clock demo_world_two_clock)
  then have "map ts (get_chat_history (cache_container demo_world_three) 3) = [8, 8, 5]"
    by (simp add: t1 stamp clock demo_world_two_clock)
  with stored show ?thesis by simp
qed

text \<open>
  C8, amended. \<open>get_chat_history\<close> returns at most \<open>N\<close> items, ordered by
  non-increasing \<open>_ts\<close>, and strictly descending whenever the stored stamps are
  distinct. For every \<open>N\<close> of at least 1, \<open>get_conversation_history\<close> returns at most
  \<open>N\<close> documents, ordered by non-increasing \<open>_id\<close>, strictly descending as ObjectIds
  are distinct. On both paths nothing that was left out is newer than something
  returned. The window size 0 on the Mongo vCore path is left out of the statement.
\<close>

theorem history_window:
  "length (get_chat_history container n) \<le> n \<and>
   sorted_wrt (\<ge>) (map ts (get_chat_history container n)) \<and>
   (distinct (map ts container) \<longrightarrow>
      sorted_wrt (>) (map ts (get_chat_history container n))) \<and>
   (\<forall>c \<in> set container. c \<notin> set (get_chat_history container n) \<longrightarrow>
      (\<forall>r \<in> set (get_chat_history container n). ts c \<le> ts r)) \<and>
   (0 < n \<longrightarrow>
      length (get_conversation_history cache_docs n) \<le> n \<and>
      sorted_wrt (\<ge>) (map oid (get_conversation_history cache_docs n)) \<and>
      (distinct (map oid cache_docs) \<longrightarrow>
         sorted_wrt (>) (map oid (get_conversation_history cache_docs n))) \<and>
      (\<forall>c \<in> set cache_docs. c \<notin> set (get_conversation_history cache_docs n) \<longrightarrow>
         (\<forall>r \<in> set (get_conversation_history cache_docs n). oid c \<le> oid r)))"
proof -
  have a: "length (get_chat_history container n) \<le> n"
    by (simp add: get_chat_history_def)
  have s1: "sorted_wrt (\<lambda>a b. ts b \<le> ts a) (get_chat_history container n)"
    unfolding get_chat_history_def by (rule sorted_wrt_take_desc) (rule sorted_order_by_desc)
  then have b: "sorted_wrt (\<ge>) (map ts (get_chat_history container n))"
    by (rule sorted_desc_map)
  have b': "sorted_wrt (>) (map ts (get_chat_history container n))"
    if "distinct (map ts container)"
  proof -
    have "distinct (map ts (take n (order_by_desc ts container)))"
      using distinct_order_by_desc [OF that] by (simp add: distinct_take flip: take_map)
    then have "distinct (map ts (get_chat_history container n))"
      by (simp only: get_chat_history_def)
    from sorted_desc_strict [OF s1 this] show ?thesis
      by (simp add: sorted_wrt_map)
  qed
  have c: "\<forall>c \<in> set container. c \<notin> set (get_chat_history container n) \<longrightarrow>
      (\<forall>r \<in> set (get_chat_history container n). ts c \<le> ts r)"
    unfolding get_chat_history_def
    using take_sorted_newest [OF sorted_order_by_desc [of ts container], of _ n]
    by (auto simp: set_order_by_desc)
  have vcore: "length (get_conversation_history cache_docs n) \<le> n \<and>
      sorted_wrt (\<ge>) (map oid (get_conversation_history cache_docs n)) \<and>
      (distinct (map oid cache_docs) \<longrightarrow>
         sorted_wrt (>) (map oid (get_conversation_history cache_docs n))) \<and>
      (\<forall>c \<in> set cache_docs. c \<notin> set (get_conversation_history cache_docs n) \<longrightarrow>
         (\<forall>r \<in> set (get_conversation_history cache_docs n). oid c \<le> oid r))"
    if pos: "0 < n"
  proof -
    from pos have eq: "get_conversation_history cache_docs n = take n (order_by_desc oid cache_docs)"
      by (simp add: get_conversation_history_def)
    have d: "length (get_conversation_history cache_docs n) \<le> n"
      by (simp add: eq)
    have s2: "sorted_wrt (\<lambda>a b. oid b \<le> oid a) (get_conversation_history cache_docs n)"
      unfolding eq by (rule sorted_wrt_take_desc) (rule sorted_order_by_desc)
    then have f: "sorted_wrt (\<ge>) (map oid (get_conversation_history cache_docs n))"
      by (rule sorted_desc_map)
    have g: "sorted_wrt (>) (map oid (get_conversation_history cache_docs n))"
      if "distinct (map oid cache_docs)"
    proof -
      have "distinct (map oid (take n (order_by_desc oid cache_docs)))"
        using distinct_order_by_desc [OF that] by (simp add: distinct_take flip: take_map)
      then have "distinct (map oid (get_conversation_history cache_docs n))"
        by (simp only: eq)
      from sorted_desc_strict [OF s2 this] show ?thesis
        by (simp add: sorted_wrt_map)
    qed
    have h: "\<forall>c \<in> set cache_docs. c \<notin> set (get_conversation_history cache_docs n) \<longrightarrow>
        (\<forall>r \<in> set (get_conversation_history cache_docs n). oid c \<le> oid r)"
      unfolding eq
      using take_sorted_newest [OF sorted_order_by_desc [of oid cache_docs], of _ n]
      by (auto simp: set_order_by_desc)
    from d f g h show ?thesis by blast
  qed
  from a b b' c vcore show ?thesis by blast
qed

theorem history_window_witness:
  "get_chat_history [demo_entry, demo_entry\<lparr>ts := 9\<rparr>] 1 = [demo_entry\<lparr>ts := 9\<rparr>] \<and>
   length (get_chat_history [demo_entry, demo_entry\<lparr>ts := 9\<rparr>] 1) \<le> 1 \<and>
   distinct (map ts [demo_entry, demo_entry\<lparr>ts := 9\<rparr>]) \<and>
   sorted_wrt (>) (map ts (get_chat_history [demo_entry, demo_entry\<lparr>ts := 9\<rparr>] 1)) \<and>
   (0::nat) < 1 \<and>
   length (get_conversation_history [demo_vcore_entry, demo_vcore_entry\<lparr>oid := 1\<rparr>] 1) \<le> 1 \<and>
   distinct (map oid [demo_vcore_entry, demo_vcore_entry\<lparr>oid := 1\<rparr>]) \<and>
   sorted_wrt (>) (map oid (get_conversation_history [demo_vcore_entry, demo_vcore_entry\<lparr>oid := 1\<rparr>] 1)) \<and>
   get_conversation_history [demo_vcore_entry, demo_vcore_entry\<lparr>oid := 1\<rparr>] 1 =
     [demo_vcore_entry\<lparr>oid := 1\<rparr>]"
proof -
  have d: "distinct (map oid [demo_vcore_entry, demo_vcore_entry\<lparr>oid := 1\<rparr>])"
    by (simp add: demo_vcore_entry_def)
  have d': "distinct (map ts [demo_entry, demo_entry\<lparr>ts := 9\<rparr>])"
    by (simp add: demo_entry_def)
  have pos: "(0::nat) < 1" by simp
  note t = history_window [of "[demo_entry, demo_entry\<lparr>ts := 9\<rparr>]" 1
      "[demo_vcore_entry, demo_vcore_entry\<lparr>oid := 1\<rparr>]"]
  have a: "get_chat_history [demo_entry, demo_entry\<lparr>ts := 9\<rparr>] 1 = [demo_entry\<lparr>ts := 9\<rparr>]"
    by (simp add: get_chat_history_def demo_entry_def)
  have b: "get_conversation_history [demo_vcore_entry, demo_vcore_entry\<lparr>oid := 1\<rparr>] 1 =
     [demo_vcore_entry\<lparr>oid := 1\<rparr>]"
    by (simp add: get_conversation_history_def demo_vcore_entry_def)
  from t d pos
  have s: "sorted_wrt (>) (map oid (get_conversation_history [demo_vcore_entry, demo_vcore_entry\<lparr>oid := 1\<rparr>] 1))"
    by blast
  from t d'
  have s': "sorted_wrt (>) (map ts (get_chat_history [demo_entry, demo_entry\<lparr>ts := 9\<rparr>] 1))"
    by blast
  from t pos
  have l: "length (get_chat_history [demo_entry, demo_entry\<lparr>ts := 9\<rparr>] 1) \<le> 1 \<and>
    length (get_conversation_history [demo_vcore_entry, demo_vcore_entry\<lparr>oid := 1\<rparr>] 1) \<le> 1"
    by blast
  from a b d d' s s' l show ?thesis by simp
qed

text \<open>
  C9. When the embedding call raises on the input, \<open>chat_completion\<close> ends with that
  error and the whole state is as before: the cache container has no new item and no
  request was sent to the completions endpoint.
\<close>

theorem chat_completion_embedding_error:
  assumes "embeddings_create E user_input = None"
  shows "chat_completion E w user_input = (Inl EmbeddingError, w)"
  using assms by (simp add: chat_completion_def generate_embeddings_def)

theorem chat_completion_embedding_error_witness:
  "embeddings_create demo_env '''' = None \<and>
   chat_completion demo_env demo_world '''' = (Inl EmbeddingError, demo_world) \<and>
   cache_container (snd (chat_completion demo_env demo_world '''')) = [demo_entry] \<and>
   completion_requests (snd (chat_completion demo_env demo_world '''')) = []"
  using chat_completion_embedding_error [of demo_env "''''" demo_world]
  by (simp add: demo_env_def demo_embed_def demo_world_def)

text \<open>
  C10. In the Mongo vCore loop every query read before the word \<open>end\<close> is processed the
  same way whatever the cache holds: as long as the embedding call, the provider and the
  insert succeed, the loop sends one request to the Completion Provider per query and
  inserts one cache document per query. The request sent for a query is the payload
  built from that query, its search results and the cache as it stood then; the document
  inserted for it holds the query, its embedding and the text and counters of the
  provider's answer to that very request. The cache is only read as history inside
  \<open>generate_completion\<close>; no branch of the loop body looks for a stored answer, so a
  question asked again is sent to the provider again and its new answer stored.
\<close>

theorem qa_loop_always_generates:
  assumes stop: "lower stop = ''end''"
    and qs: "\<forall>q \<in> set qs. lower q \<noteq> ''end'' \<and> embeddings_create E q \<noteq> None"
    and gen: "\<forall>ms. chat_completions_create E ms \<noteq> None"
    and ins: "\<forall>d. insert_ok E d"
  shows "\<exists>w' docs reqs.
           qa_loop E w (qs @ stop # rest) = (Inr (), w') \<and>
           cache w' = cache w @ docs \<and>
           vcore_requests w' = vcore_requests w @ reqs \<and>
           collection w' = collection w \<and>
           next_oid w' = next_oid w + length qs \<and>
           length docs = length qs \<and> length reqs = length qs \<and>
           (\<forall>i < length qs. \<exists>v r.
              embeddings_create E (qs ! i) = Some v \<and>
              reqs ! i = generate_completion_messages_vcore
                           (vector_search_vcore E (collection w) v 3) (qs ! i)
                           (cache w @ take i docs) \<and>
              chat_completions_create E (reqs ! i) = Some r \<and>
              docs ! i = cache_generation_document (qs ! i) v r (w\<lparr>next_oid := next_oid w + i\<rparr>))"
  using qs
proof (induction qs arbitrary: w)
  case Nil
  have "qa_loop E w ([] @ stop # rest) = (Inr (), w)"
    using stop by simp
  then show ?case by simp
next
  case (Cons q qs)
  from Cons.prems obtain v where v: "embeddings_create E q = Some v" and go: "lower q \<noteq> ''end''"
    by auto
  let ?m = "generate_completion_messages_vcore
      (vector_search_vcore E (collection w) v 3) q (cache w)"
  from gen have "chat_completions_create E ?m \<noteq> None" by blast
  then obtain r where r: "chat_completions_create E ?m = Some r" by auto
  let ?d = "cache_generation_document q v r w"
  let ?w1 = "w\<lparr>vcore_requests := vcore_requests w @ [?m],
              stdout := stdout w @ [''\<newline>'' @ q, message_content r],
              next_oid := Suc (next_oid w),
              cache := cache w @ [?d]\<rparr>"
  have step: "qa_step E w q = (Inr (), ?w1)"
    using qa_step_success [OF v refl r] ins by simp
  from Cons.prems have "\<forall>q \<in> set qs. lower q \<noteq> ''end'' \<and> embeddings_create E q \<noteq> None"
    by simp
  from Cons.IH [OF this, of ?w1] obtain w' docs reqs where
    run: "qa_loop E ?w1 (qs @ stop # rest) = (Inr (), w')"
    and c: "cache w' = cache ?w1 @ docs"
    and l: "vcore_requests w' = vcore_requests ?w1 @ reqs"
    and k: "collection w' = collection ?w1"
    and o: "next_oid w' = next_oid ?w1 + length qs"
    and len: "length docs = length qs" "length reqs = length qs"
    and each: "\<forall>i < length qs. \<exists>v r.
              embeddings_create E (qs ! i) = Some v \<and>
              reqs ! i = generate_completion_messages_vcore
                           (vector_search_vcore E (collection ?w1) v 3) (qs ! i)
                           (cache ?w1 @ take i docs) \<and>
              chat_completions_create E (reqs ! i) = Some r \<and>
              docs ! i = cache_generation_document (qs ! i) v r
                           (?w1\<lparr>next_oid := next_oid ?w1 + i\<rparr>)"
    by blast
  have run': "qa_loop E w ((q # qs) @ stop # rest) = (Inr (), w')"
    using go step run by simp
  have c': "cache w' = cache w @ (?d # docs)" using c by simp
  have l': "vcore_requests w' = vcore_requests w @ (?m # reqs)" using l by simp
  have k': "collection w' = collection w" using k by simp
  have o': "next_oid w' = next_oid w + length (q # qs)" using o by simp
  have len': "length (?d # docs) = length (q # qs)" "length (?m # reqs) = length (q # qs)"
    using len by simp_all
  have each': "\<exists>v r.
              embeddings_create E ((q # qs) ! i) = Some v \<and>
              (?m # reqs) ! i = generate_completion_messages_vcore
                           (vector_search_vcore E (collection w) v 3) ((q # qs) ! i)
                           (cache w @ take i (?d # docs)) \<and>
              chat_completions_create E ((?m # reqs) ! i) = Some r \<and>
              (?d # docs) ! i = cache_generation_document ((q # qs) ! i) v r
                           (w\<lparr>next_oid := next_oid w + i\<rparr>)"
    if "i < length (q # qs)" for i
  proof (cases i)
    case 0
    have "cache_generation_document q v r (w\<lparr>next_oid := next_oid w + 0\<rparr>) = ?d"
      by (simp add: cache_generation_document_def)
    with 0 v r show ?thesis by simp
  next
    case (Suc j)
    with that have "j < length qs" by simp
    with each obtain v' r' where
      e: "embeddings_create E (qs ! j) = Some v'"
      and m: "reqs ! j = generate_completion_messages_vcore
                           (vector_search_vcore E (collection ?w1) v' 3) (qs ! j)
                           (cache ?w1 @ take j docs)"
      and p: "chat_completions_create E (reqs ! j) = Some r'"
      and d: "docs ! j = cache_generation_document (qs ! j) v' r'
                           (?w1\<lparr>next_oid := next_oid ?w1 + j\<rparr>)"
      by blast
    have m': "reqs ! j = generate_completion_messages_vcore
                           (vector_search_vcore E (collection w) v' 3) (qs ! j)
                           (cache w @ take (Suc j) (?d # docs))"
      using m by simp
    have d': "docs ! j = cache_generation_document (qs ! j) v' r'
                           (w\<lparr>next_oid := next_oid w + Suc j\<rparr>)"
      using d by (simp add: cache_generation_document_def)
    from e m' p d' Suc show ?thesis by simp
  qed
  from run' c' l' k' o' len' each' show ?case by blast
qed

theorem qa_loop_always_generates_witness:
  "lower ''END'' = ''end'' \<and>
   demo_vcore_entry \<in> set (cache demo_vcore_world) \<and> vc_prompt demo_vcore_entry = ''a'' \<and>
   (\<exists>w'. qa_loop demo_vcore_env demo_vcore_world [''a'', ''a'', ''END'', ''b''] = (Inr (), w') \<and>
         length (vcore_requests w') = 2 \<and>
         map vc_prompt (cache w') = [''a'', ''a'', ''a''] \<and>
         map vc_completion (cache w') = [''Cosmos DB'', ''Alien'', ''Alien''])"
proof -
  have q: "\<forall>q \<in> set [''a'', ''a'']. lower q \<noteq> ''end'' \<and> embeddings_create demo_vcore_env q \<noteq> None"
    by (simp add: lower_a demo_vcore_env_def demo_embed_def)
  have g: "\<forall>ms. chat_completions_create demo_vcore_env ms \<noteq> None"
    by (simp add: demo_vcore_env_def)
  have i: "\<forall>d. insert_ok demo_vcore_env d"
    by (simp add: demo_vcore_env_def)
  have answer: "r = demo_response" if "chat_completions_create demo_vcore_env ms = Some r" for ms r
    using that by (simp add: demo_vcore_env_def)
  from qa_loop_always_generates [OF lower_end q g i, of demo_vcore_world "[''b'']"]
  obtain w' docs reqs where
    run: "qa_loop demo_vcore_env demo_vcore_world ([''a'', ''a''] @ [''END'', ''b'']) = (Inr (), w')"
    and c: "cache w' = cache demo_vcore_world @ docs"
    and l: "vcore_requests w' = vcore_requests demo_vcore_world @ reqs"
    and len: "length docs = length [''a'', ''a'']" "length reqs = length [''a'', ''a'']"
    and each: "\<forall>i < length [''a'', ''a'']. \<exists>v r.
              embeddings_create demo_vcore_env ([''a'', ''a''] ! i) = Some v \<and>
              reqs ! i = generate_completion_messages_vcore
                           (vector_search_vcore demo_vcore_env (collection demo_vcore_world) v 3)
                           ([''a'', ''a''] ! i) (cache demo_vcore_world @ take i docs) \<and>
              chat_completions_create demo_vcore_env (reqs ! i) = Some r \<and>
              docs ! i = cache_generation_document ([''a'', ''a''] ! i) v r
                           (demo_vcore_world\<lparr>next_oid := next_oid demo_vcore_world + i\<rparr>)"
    by auto
  have doc: "vc_prompt (docs ! i) = ''a'' \<and> vc_completion (docs ! i) = ''Alien''" if "i < 2" for i
  proof -
    from that have "i < length [''a'', ''a'']" by simp
    with each obtain v r where
      p: "chat_completions_create demo_vcore_env (reqs ! i) = Some r"
      and d: "docs ! i = cache_generation_document ([''a'', ''a''] ! i) v r
                           (demo_vcore_world\<lparr>next_oid := next_oid demo_vcore_world + i\<rparr>)"
      by blast
    from answer [OF p] have r: "r = demo_response" .
    from that have "[''a'', ''a''] ! i = ''a''"
      by (cases i) auto
    with d r show ?thesis
      by (simp add: cache_generation_document_def demo_response_def)
  qed
  from len(1) obtain d0 d1 where docs: "docs = [d0, d1]"
    by (cases docs; cases "tl docs") auto
  from doc [of 0] doc [of 1] docs
  have fields: "vc_prompt d0 = ''a''" "vc_completion d0 = ''Alien''"
      "vc_prompt d1 = ''a''" "vc_completion d1 = ''Alien''"
    by simp_all
  have a: "qa_loop demo_vcore_env demo_vcore_world [''a'', ''a'', ''END'', ''b''] = (Inr (), w')"
    using run by simp
  have b: "length (vcore_requests w') = 2"
    using l len(2) by (simp add: demo_vcore_world_def)
  have cache': "cache w' = [demo_vcore_entry, d0, d1]"
    using c docs by (simp add: demo_vcore_world_def)
  have p: "map vc_prompt (cache w') = [''a'', ''a'', ''a'']"
    by (simp add: cache' fields demo_vcore_entry_def)
  have k: "map vc_completion (cache w') = [''Cosmos DB'', ''Alien'', ''Alien'']"
    by (simp add: cache' fields demo_vcore_entry_def)
  have "\<exists>w'. qa_loop demo_vcore_env demo_vcore_world [''a'', ''a'', ''END'', ''b''] = (Inr (), w') \<and>
         length (vcore_requests w') = 2 \<and>
         map vc_prompt (cache w') = [''a'', ''a'', ''a''] \<and>
         map vc_completion (cache w') = [''Cosmos DB'', ''Alien'', ''Alien'']"
    by (rule exI [of _ w']) (simp only: a b p k simp_thms)
  then show ?thesis
    using lower_end by (simp add: demo_vcore_world_def demo_vcore_entry_def)
qed

end
